theory Spec2Isabelle
  imports Complex_Main "HOL-Library.Sublist"
begin

section \<open>Python values\<close>

text \<open>
  The element records handled by \<^verbatim>\<open>excalidraw.py\<close> and \<^verbatim>\<open>tools.py\<close> are open
  dictionaries decoded from JSON, so a field may hold any JSON value. A dictionary is an
  association list in insertion order, as Python dictionaries iterate. Python's unbounded
  integers are \<open>int\<close>. A Python float is idealised as an exact rational: rounding,
  overflow, infinities and NaN are not modelled. A \<open>char\<close> stands for one code point
  (below 256), so \<open>length\<close> is Python's \<^verbatim>\<open>len\<close>.
\<close>

datatype pyval =
    PNone
  | PBool bool
  | PInt int
  | PFloat rat
  | PStr string
  | PList "pyval list"
  | PDict "(string \<times> pyval) list"

type_synonym pydict = "(string \<times> pyval) list"

datatype py_error = TypeError | AttributeError | ValueError | ZeroDivisionError

text \<open>Truth value testing, as \<^verbatim>\<open>if v:\<close> does it.\<close>

fun truthy :: "pyval \<Rightarrow> bool" where
  "truthy PNone = False"
| "truthy (PBool b) = b"
| "truthy (PInt i) = (i \<noteq> 0)"
| "truthy (PFloat r) = (r \<noteq> 0)"
| "truthy (PStr s) = (s \<noteq> [])"
| "truthy (PList xs) = (xs \<noteq> [])"
| "truthy (PDict d) = (d \<noteq> [])"

text \<open>\<^verbatim>\<open>k in d\<close>, \<^verbatim>\<open>d.get(k, default)\<close>, \<^verbatim>\<open>d[k] = v\<close> and \<^verbatim>\<open>d.update(other)\<close>.
  Assigning to a key that is present keeps its position; a new key goes to the end.\<close>

definition dict_has :: "pydict \<Rightarrow> string \<Rightarrow> bool" where
  "dict_has d k = (map_of d k \<noteq> None)"

definition dict_get :: "pydict \<Rightarrow> string \<Rightarrow> pyval \<Rightarrow> pyval" where
  "dict_get d k dflt = (case map_of d k of None \<Rightarrow> dflt | Some v \<Rightarrow> v)"

fun dict_set :: "string \<Rightarrow> pyval \<Rightarrow> pydict \<Rightarrow> pydict" where
  "dict_set k v [] = [(k, v)]"
| "dict_set k v ((k', v') # d) = (if k' = k then (k, v) # d else (k', v') # dict_set k v d)"

definition dict_update :: "pydict \<Rightarrow> pydict \<Rightarrow> pydict" where
  "dict_update d other = fold (\<lambda>(k, v) acc. dict_set k v acc) other d"

definition bind :: "py_error + 'a \<Rightarrow> ('a \<Rightarrow> py_error + 'b) \<Rightarrow> py_error + 'b" where
  "bind m f = (case m of Inl e \<Rightarrow> Inl e | Inr v \<Rightarrow> f v)"

section \<open>Strings\<close>

text \<open>
  \<^verbatim>\<open>s.replace(old, new)\<close>: all occurrences, scanning left to right without overlap.
  With an empty \<open>old\<close> Python puts \<open>new\<close> before every character and at the end.
\<close>

fun str_replace :: "string \<Rightarrow> string \<Rightarrow> string \<Rightarrow> string" where
  "str_replace old new s =
     (if old = [] then new @ concat (map (\<lambda>c. c # new) s)
      else if s = [] then []
      else if prefix old s then new @ str_replace old new (drop (length old) s)
      else hd s # str_replace old new (tl s))"

declare str_replace.simps [simp del]

text \<open>\<^verbatim>\<open>sep.join(xs)\<close>.\<close>

fun str_join :: "string \<Rightarrow> string list \<Rightarrow> string" where
  "str_join sep [] = []"
| "str_join sep [x] = x"
| "str_join sep (x # y # ys) = x @ sep @ str_join sep (y # ys)"

text \<open>\<^verbatim>\<open>s.strip()\<close> removes leading and trailing whitespace; these are the code
  points below 256 for which \<^verbatim>\<open>str.isspace\<close> holds.\<close>

definition py_isspace :: "char \<Rightarrow> bool" where
  "py_isspace c = (c \<in> set [CHR 0x09, CHR 0x0A, CHR 0x0B, CHR 0x0C, CHR 0x0D,
     CHR 0x1C, CHR 0x1D, CHR 0x1E, CHR 0x1F, CHR 0x20, CHR 0x85, CHR 0xA0])"

definition py_strip :: "string \<Rightarrow> string" where
  "py_strip s = rev (dropWhile py_isspace (rev (dropWhile py_isspace s)))"

section \<open>\<^verbatim>\<open>ExcalidrawElementProcessor.sanitize_text\<close> (excalidraw.py)\<close>

definition sanitize_text :: "string \<Rightarrow> string" where
  "sanitize_text text =
     (if text = [] then text
      else str_replace ''<br />'' [CHR 0x0A]
             (str_replace ''<br/>'' [CHR 0x0A]
               (str_replace ''<br>'' [CHR 0x0A] text)))"

section \<open>\<^verbatim>\<open>SaveExcalidrawToolHandler.run_tool\<close> (tools.py)\<close>

text \<open>
  The arguments as the tool's input schema types them: \<open>filepath\<close> a string,
  \<open>elements\<close> an array of objects, \<open>appState\<close> and \<open>frontmatter\<close> objects,
  \<open>text_elements\<close> a string; \<open>None\<close> is an absent argument.
\<close>

record save_args =
  arg_filepath :: "string option"
  arg_elements :: "pydict list option"
  arg_appState :: "pydict option"
  arg_frontmatter :: "pydict option"
  arg_text_elements :: "string option"

text \<open>
  \<open>run_tool\<close> returns the call it makes to the external \<^verbatim>\<open>put_content\<close>: the path
  and the note. The note comes from \<^verbatim>\<open>_build_excalidraw_note\<close>, passed in as
  \<open>build\<close>; an exception raised there leaves \<open>run_tool\<close> before anything is written.
\<close>

definition run_tool ::
  "(pydict list \<Rightarrow> pydict option \<Rightarrow> pydict \<Rightarrow> string \<Rightarrow> py_error + string)
     \<Rightarrow> save_args \<Rightarrow> py_error + (string \<times> string)" where
  "run_tool build args =
     (case (arg_filepath args, arg_elements args) of
        (Some filepath, Some elements) \<Rightarrow>
          (let appState = arg_appState args;
               frontmatter = (case arg_frontmatter args of None \<Rightarrow> [] | Some f \<Rightarrow> f);
               text_elements = (case arg_text_elements args of None \<Rightarrow> [] | Some t \<Rightarrow> t);
               filepath' =
                 (if \<not> suffix ''.excalidraw.md'' filepath then
                    (if suffix ''.md'' filepath
                     then str_replace ''.md'' ''.excalidraw.md'' filepath
                     else filepath @ ''.excalidraw.md'')
                  else filepath)
           in bind (build elements appState frontmatter text_elements)
                (\<lambda>content. Inr (filepath', content)))
      | _ \<Rightarrow> Inl ValueError)"

section \<open>Numbers and arithmetic\<close>

text \<open>
  Python's numeric operators on values that may be of any type. \<open>bool\<close> counts as an
  integer; an operation on two integers yields an integer, one with a float yields a
  float; \<^verbatim>\<open>/\<close> always yields a float. An integer times a string or list repeats the
  sequence. An operand the operator has no meaning for raises \<^verbatim>\<open>TypeError\<close>.
\<close>

datatype num = NInt int | NFloat rat

fun num_of :: "pyval \<Rightarrow> num option" where
  "num_of (PBool b) = Some (NInt (if b then 1 else 0))"
| "num_of (PInt i) = Some (NInt i)"
| "num_of (PFloat r) = Some (NFloat r)"
| "num_of PNone = None"
| "num_of (PStr s) = None"
| "num_of (PList xs) = None"
| "num_of (PDict d) = None"

fun rat_of_num :: "num \<Rightarrow> rat" where
  "rat_of_num (NInt i) = of_int i"
| "rat_of_num (NFloat r) = r"

fun arith :: "(int \<Rightarrow> int \<Rightarrow> int) \<Rightarrow> (rat \<Rightarrow> rat \<Rightarrow> rat) \<Rightarrow> num \<Rightarrow> num \<Rightarrow> pyval" where
  "arith fi fr (NInt i) (NInt j) = PInt (fi i j)"
| "arith fi fr (NInt i) (NFloat s) = PFloat (fr (of_int i) s)"
| "arith fi fr (NFloat r) b = PFloat (fr r (rat_of_num b))"

fun seq_repeat :: "num \<Rightarrow> pyval \<Rightarrow> py_error + pyval" where
  "seq_repeat (NInt i) (PStr s) = Inr (PStr (concat (replicate (nat i) s)))"
| "seq_repeat (NInt i) (PList xs) = Inr (PList (concat (replicate (nat i) xs)))"
| "seq_repeat a v = Inl TypeError"

definition py_mul :: "pyval \<Rightarrow> pyval \<Rightarrow> py_error + pyval" where
  "py_mul a b =
     (case (num_of a, num_of b) of
        (Some x, Some y) \<Rightarrow> Inr (arith (*) (*) x y)
      | (Some x, None) \<Rightarrow> seq_repeat x b
      | (None, Some y) \<Rightarrow> seq_repeat y a
      | (None, None) \<Rightarrow> Inl TypeError)"

definition py_sub :: "pyval \<Rightarrow> pyval \<Rightarrow> py_error + pyval" where
  "py_sub a b =
     (case (num_of a, num_of b) of
        (Some x, Some y) \<Rightarrow> Inr (arith (-) (-) x y)
      | _ \<Rightarrow> Inl TypeError)"

definition py_add :: "pyval \<Rightarrow> pyval \<Rightarrow> py_error + pyval" where
  "py_add a b =
     (case (num_of a, num_of b) of
        (Some x, Some y) \<Rightarrow> Inr (arith (+) (+) x y)
      | _ \<Rightarrow> (case (a, b) of
                (PStr s, PStr t) \<Rightarrow> Inr (PStr (s @ t))
              | (PList xs, PList ys) \<Rightarrow> Inr (PList (xs @ ys))
              | _ \<Rightarrow> Inl TypeError))"

definition py_truediv :: "pyval \<Rightarrow> pyval \<Rightarrow> py_error + pyval" where
  "py_truediv a b =
     (case (num_of a, num_of b) of
        (Some x, Some y) \<Rightarrow>
          (if rat_of_num y = 0 then Inl ZeroDivisionError
           else Inr (PFloat (rat_of_num x / rat_of_num y)))
      | _ \<Rightarrow> Inl TypeError)"

text \<open>\<^verbatim>\<open>len(v)\<close>.\<close>

fun py_len :: "pyval \<Rightarrow> py_error + pyval" where
  "py_len (PStr s) = Inr (PInt (int (length s)))"
| "py_len (PList xs) = Inr (PInt (int (length xs)))"
| "py_len (PDict d) = Inr (PInt (int (length d)))"
| "py_len v = Inl TypeError"

text \<open>
  \<^verbatim>\<open>str(v)\<close>: the decimal digits of an integer, \<^verbatim>\<open>None\<close>, \<^verbatim>\<open>True\<close> and
  \<^verbatim>\<open>False\<close> by name, a string itself. The rendering of floats, lists and
  dictionaries is left to the parameter \<open>repr_rest\<close>.
\<close>

fun str_nat :: "nat \<Rightarrow> string" where
  "str_nat n =
     (if n < 10 then [''0123456789'' ! n]
      else str_nat (n div 10) @ [''0123456789'' ! (n mod 10)])"

declare str_nat.simps [simp del]

fun py_str :: "(pyval \<Rightarrow> string) \<Rightarrow> pyval \<Rightarrow> string" where
  "py_str repr_rest PNone = ''None''"
| "py_str repr_rest (PBool b) = (if b then ''True'' else ''False'')"
| "py_str repr_rest (PInt i) = (if i < 0 then CHR ''-'' # str_nat (nat (- i)) else str_nat (nat i))"
| "py_str repr_rest (PStr s) = s"
| "py_str repr_rest v = repr_rest v"

section \<open>\<^verbatim>\<open>ExcalidrawElement\<close> (excalidraw.py)\<close>

text \<open>
  The dataclass. Python does not check the annotated field types, so every field holds a
  value of any type. The six core fields have no default.
\<close>

record ExcalidrawElement =
  el_id :: pyval
  el_type :: pyval
  el_x :: pyval
  el_y :: pyval
  el_width :: pyval
  el_height :: pyval
  angle :: pyval
  strokeColor :: pyval
  backgroundColor :: pyval
  fillStyle :: pyval
  strokeWidth :: pyval
  strokeStyle :: pyval
  roughness :: pyval
  opacity :: pyval
  groupIds :: pyval
  frameId :: pyval
  roundness :: pyval
  seed :: pyval
  version :: pyval
  versionNonce :: pyval
  isDeleted :: pyval
  boundElements :: pyval
  updated :: pyval
  link :: pyval
  locked :: pyval
  extra_fields :: pydict

definition known_fields :: "string list" where
  "known_fields =
     [''id'', ''type'', ''x'', ''y'', ''width'', ''height'', ''angle'',
      ''strokeColor'', ''backgroundColor'', ''fillStyle'', ''strokeWidth'',
      ''strokeStyle'', ''roughness'', ''opacity'', ''groupIds'', ''frameId'',
      ''roundness'', ''seed'', ''version'', ''versionNonce'', ''isDeleted'',
      ''boundElements'', ''updated'', ''link'', ''locked'']"

text \<open>A keyword argument without a default: the constructor raises \<^verbatim>\<open>TypeError\<close>
  when it is not passed.\<close>

definition required :: "pydict \<Rightarrow> string \<Rightarrow> py_error + pyval" where
  "required kwargs k = (case map_of kwargs k of None \<Rightarrow> Inl TypeError | Some v \<Rightarrow> Inr v)"

definition from_dict :: "pydict \<Rightarrow> py_error + ExcalidrawElement" where
  "from_dict data =
     (let base_fields = filter (\<lambda>(k, v). k \<in> set known_fields) data;
          extra = filter (\<lambda>(k, v). k \<notin> set known_fields) data
      in bind (required base_fields ''id'') (\<lambda>i.
         bind (required base_fields ''type'') (\<lambda>t.
         bind (required base_fields ''x'') (\<lambda>vx.
         bind (required base_fields ''y'') (\<lambda>vy.
         bind (required base_fields ''width'') (\<lambda>w.
         bind (required base_fields ''height'') (\<lambda>h.
           Inr \<lparr>el_id = i, el_type = t, el_x = vx, el_y = vy, el_width = w, el_height = h,
                angle = dict_get base_fields ''angle'' (PInt 0),
                strokeColor = dict_get base_fields ''strokeColor'' (PStr ''#1e1e1e''),
                backgroundColor = dict_get base_fields ''backgroundColor'' (PStr ''transparent''),
                fillStyle = dict_get base_fields ''fillStyle'' (PStr ''solid''),
                strokeWidth = dict_get base_fields ''strokeWidth'' (PInt 2),
                strokeStyle = dict_get base_fields ''strokeStyle'' (PStr ''solid''),
                roughness = dict_get base_fields ''roughness'' (PInt 1),
                opacity = dict_get base_fields ''opacity'' (PInt 100),
                groupIds = dict_get base_fields ''groupIds'' (PList []),
                frameId = dict_get base_fields ''frameId'' PNone,
                roundness = dict_get base_fields ''roundness'' PNone,
                seed = dict_get base_fields ''seed'' (PInt 1),
                version = dict_get base_fields ''version'' (PInt 1),
                versionNonce = dict_get base_fields ''versionNonce'' (PInt 1),
                isDeleted = dict_get base_fields ''isDeleted'' (PBool False),
                boundElements = dict_get base_fields ''boundElements'' (PList []),
                updated = dict_get base_fields ''updated'' (PInt 1),
                link = dict_get base_fields ''link'' PNone,
                locked = dict_get base_fields ''locked'' (PBool False),
                extra_fields = extra\<rparr>)))))))"

definition to_dict :: "ExcalidrawElement \<Rightarrow> pydict" where
  "to_dict e =
     dict_update
       [(''id'', el_id e), (''type'', el_type e), (''x'', el_x e), (''y'', el_y e),
        (''width'', el_width e), (''height'', el_height e), (''angle'', angle e),
        (''strokeColor'', strokeColor e), (''backgroundColor'', backgroundColor e),
        (''fillStyle'', fillStyle e), (''strokeWidth'', strokeWidth e),
        (''strokeStyle'', strokeStyle e), (''roughness'', roughness e),
        (''opacity'', opacity e), (''groupIds'', groupIds e), (''frameId'', frameId e),
        (''roundness'', roundness e), (''seed'', seed e), (''version'', version e),
        (''versionNonce'', versionNonce e), (''isDeleted'', isDeleted e),
        (''boundElements'', boundElements e), (''updated'', updated e),
        (''link'', link e), (''locked'', locked e)]
       (extra_fields e)"

section \<open>\<^verbatim>\<open>ExcalidrawElementProcessor\<close> (excalidraw.py)\<close>

text \<open>
  \<^verbatim>\<open>generate_id\<close> draws \<open>len\<close> characters at random. The random source is the
  sequence \<open>rnd\<close> of draws and the number \<open>n\<close> of draws made so far, which every
  function that mints an id takes and returns.
\<close>

definition alphabet :: string where
  "alphabet = ''ABCDEFGHIJKLMNOPQRSTUVWXYZabcdefghijklmnopqrstuvwxyz0123456789''"

definition generate_id :: "(nat \<Rightarrow> nat) \<Rightarrow> nat \<Rightarrow> nat \<Rightarrow> string \<times> nat" where
  "generate_id rnd n len = (map (\<lambda>i. alphabet ! (rnd (n + i) mod 62)) [0..<len], n + len)"

text \<open>\<open>sanitize_text\<close> on a value that need not be a string: a falsy value comes back
  as it is, and only a string has \<^verbatim>\<open>replace\<close>.\<close>

definition sanitize_text_any :: "pyval \<Rightarrow> py_error + pyval" where
  "sanitize_text_any text =
     (if \<not> truthy text then Inr text
      else case text of PStr s \<Rightarrow> Inr (PStr (sanitize_text s)) | _ \<Rightarrow> Inl AttributeError)"

definition extract_label_text :: "(pyval \<Rightarrow> string) \<Rightarrow> pyval \<Rightarrow> pyval" where
  "extract_label_text repr_rest label =
     (case label of
        PDict d \<Rightarrow> dict_get d ''text'' (PStr [])
      | _ \<Rightarrow> if truthy label then PStr (py_str repr_rest label) else PStr [])"

definition create_text_element_for_label ::
  "(nat \<Rightarrow> nat) \<Rightarrow> nat \<Rightarrow> ExcalidrawElement \<Rightarrow> pyval \<Rightarrow> pydict
     \<Rightarrow> py_error + (ExcalidrawElement \<times> nat)" where
  "create_text_element_for_label rnd n container text original_data =
     (let (text_id, n') = generate_id rnd n 8;
          font_size = dict_get original_data ''fontSize'' (PInt 20)
      in bind (py_len text) (\<lambda>l.
         bind (py_mul l font_size) (\<lambda>lf.
         bind (py_mul lf (PFloat (6 / 10))) (\<lambda>text_width.
         bind (py_mul font_size (PFloat (125 / 100))) (\<lambda>text_height.
         bind (py_sub (el_width container) text_width) (\<lambda>dw.
         bind (py_truediv dw (PInt 2)) (\<lambda>hw.
         bind (py_add (el_x container) hw) (\<lambda>text_x.
         bind (py_sub (el_height container) text_height) (\<lambda>dh.
         bind (py_truediv dh (PInt 2)) (\<lambda>hh.
         bind (py_add (el_y container) hh) (\<lambda>text_y.
           Inr (\<lparr>el_id = PStr text_id, el_type = PStr ''text'',
                 el_x = text_x, el_y = text_y, el_width = text_width, el_height = text_height,
                 angle = PInt 0,
                 strokeColor = strokeColor container,
                 backgroundColor = PStr ''transparent'',
                 fillStyle = PStr ''solid'', strokeWidth = PInt 2, strokeStyle = PStr ''solid'',
                 roughness = PInt 1, opacity = PInt 100, groupIds = PList [],
                 frameId = PNone, roundness = PNone, seed = PInt 1, version = PInt 1,
                 versionNonce = PInt 1, isDeleted = PBool False, boundElements = PList [],
                 updated = PInt 1, link = PNone, locked = PBool False,
                 extra_fields =
                   [(''text'', text), (''fontSize'', font_size),
                    (''fontFamily'', dict_get original_data ''fontFamily'' (PInt 1)),
                    (''textAlign'', PStr ''center''), (''verticalAlign'', PStr ''middle''),
                    (''baseline'', PInt 18), (''containerId'', el_id container),
                    (''originalText'', text), (''autoResize'', PBool True),
                    (''lineHeight'', PFloat (125 / 100))]\<rparr>, n'))))))))))))"

definition process_element ::
  "(pyval \<Rightarrow> string) \<Rightarrow> (nat \<Rightarrow> nat) \<Rightarrow> nat \<Rightarrow> pydict
     \<Rightarrow> py_error + (ExcalidrawElement list \<times> nat)" where
  "process_element repr_rest rnd n element_data =
     bind (from_dict element_data) (\<lambda>element.
       if dict_has element_data ''label'' \<and> truthy (dict_get element_data ''label'' PNone)
       then
         bind (sanitize_text_any
                 (extract_label_text repr_rest (dict_get element_data ''label'' PNone)))
           (\<lambda>label_text.
             if truthy label_text then
               bind (create_text_element_for_label rnd n element label_text element_data)
                 (\<lambda>(text_element, n').
                    Inr ([element\<lparr>boundElements :=
                            PList [PDict [(''type'', PStr ''text''),
                                          (''id'', el_id text_element)]]\<rparr>,
                          text_element], n'))
             else Inr ([element], n))
       else Inr ([element], n))"

section \<open>\<^verbatim>\<open>ExcalidrawTextExtractor\<close> (excalidraw.py)\<close>

definition get_text_content :: "pydict \<Rightarrow> pyval" where
  "get_text_content element =
     (if dict_has element ''text'' \<and> truthy (dict_get element ''text'' PNone)
      then dict_get element ''text'' PNone
      else if dict_has element ''label'' then
        (case dict_get element ''label'' PNone of
           PDict label \<Rightarrow> dict_get label ''text'' (PStr [])
         | PStr label \<Rightarrow> PStr label
         | _ \<Rightarrow> PNone)
      else PNone)"

text \<open>The loop of \<open>extract_texts\<close>, with the list \<open>texts\<close> built so far. Only a string
  has \<^verbatim>\<open>strip\<close>: a truthy content of another type raises.\<close>

fun extract_texts_loop ::
  "(nat \<Rightarrow> nat) \<Rightarrow> pydict list \<Rightarrow> string list \<times> nat \<Rightarrow> py_error + (string list \<times> nat)" where
  "extract_texts_loop rnd [] st = Inr st"
| "extract_texts_loop rnd (element # rest) (texts, n) =
     (let text_content = get_text_content element
      in if truthy text_content then
           (case text_content of
              PStr s \<Rightarrow>
                (if py_strip s \<noteq> [] then
                   (let (block_id, n') = generate_id rnd n 8
                    in extract_texts_loop rnd rest (texts @ [s @ '' ^'' @ block_id], n'))
                 else extract_texts_loop rnd rest (texts, n))
            | _ \<Rightarrow> Inl AttributeError)
         else extract_texts_loop rnd rest (texts, n))"

definition extract_texts ::
  "(nat \<Rightarrow> nat) \<Rightarrow> nat \<Rightarrow> pydict list \<Rightarrow> py_error + (string list \<times> nat)" where
  "extract_texts rnd n elements = extract_texts_loop rnd elements ([], n)"

section \<open>\<^verbatim>\<open>ExcalidrawNoteBuilder\<close> (excalidraw.py)\<close>

record ExcalidrawNoteBuilder =
  b_elements :: "pydict list"
  b_app_state :: pydict
  b_frontmatter :: pydict
  b_text_elements :: string

definition DEFAULT_APP_STATE :: pydict where
  "DEFAULT_APP_STATE =
     [(''theme'', PStr ''light''),
      (''viewBackgroundColor'', PStr ''#ffffff''),
      (''currentItemStrokeColor'', PStr ''#1e1e1e''),
      (''currentItemBackgroundColor'', PStr ''transparent''),
      (''currentItemFillStyle'', PStr ''solid''),
      (''currentItemStrokeWidth'', PInt 2),
      (''currentItemStrokeStyle'', PStr ''solid''),
      (''currentItemRoughness'', PInt 1),
      (''currentItemOpacity'', PInt 100),
      (''currentItemFontFamily'', PInt 1),
      (''currentItemFontSize'', PInt 20),
      (''currentItemTextAlign'', PStr ''left''),
      (''currentItemStartArrowhead'', PNone),
      (''currentItemEndArrowhead'', PStr ''arrow''),
      (''scrollX'', PInt 0),
      (''scrollY'', PInt 0),
      (''zoom'', PDict [(''value'', PInt 1)]),
      (''currentItemRoundness'', PStr ''round''),
      (''gridSize'', PNone),
      (''gridColor'', PDict [(''Bold'', PStr ''#C9C9C9FF''), (''Regular'', PStr ''#EDEDEDFF'')]),
      (''currentStrokeOptions'', PNone),
      (''previousGridSize'', PNone),
      (''frameRendering'',
         PDict [(''enabled'', PBool True), (''clip'', PBool True), (''name'', PBool True),
                (''outline'', PBool True)])]"

definition init_builder :: ExcalidrawNoteBuilder where
  "init_builder =
     \<lparr>b_elements = [], b_app_state = DEFAULT_APP_STATE,
      b_frontmatter = [(''excalidraw-plugin'', PStr ''parsed''),
                       (''tags'', PList [PStr ''excalidraw''])],
      b_text_elements = []\<rparr>"

fun process_all ::
  "(pyval \<Rightarrow> string) \<Rightarrow> (nat \<Rightarrow> nat) \<Rightarrow> pydict list \<Rightarrow> ExcalidrawElement list \<times> nat
     \<Rightarrow> py_error + (ExcalidrawElement list \<times> nat)" where
  "process_all repr_rest rnd [] st = Inr st"
| "process_all repr_rest rnd (element_data # rest) (processed, n) =
     bind (process_element repr_rest rnd n element_data)
       (\<lambda>(es, n'). process_all repr_rest rnd rest (processed @ es, n'))"

definition with_elements ::
  "(pyval \<Rightarrow> string) \<Rightarrow> (nat \<Rightarrow> nat) \<Rightarrow> nat \<Rightarrow> pydict list \<Rightarrow> ExcalidrawNoteBuilder
     \<Rightarrow> py_error + (ExcalidrawNoteBuilder \<times> nat)" where
  "with_elements repr_rest rnd n elements b =
     bind (process_all repr_rest rnd elements ([], n))
       (\<lambda>(processed, n'). Inr (b\<lparr>b_elements := map to_dict processed\<rparr>, n'))"

definition with_app_state :: "pydict option \<Rightarrow> ExcalidrawNoteBuilder \<Rightarrow> ExcalidrawNoteBuilder" where
  "with_app_state app_state b =
     (case app_state of
        Some a \<Rightarrow> (if a \<noteq> [] then b\<lparr>b_app_state := a\<rparr> else b)
      | None \<Rightarrow> b)"

definition with_frontmatter :: "pydict \<Rightarrow> ExcalidrawNoteBuilder \<Rightarrow> ExcalidrawNoteBuilder" where
  "with_frontmatter frontmatter b =
     (let fm = dict_update (b_frontmatter b) frontmatter
      in b\<lparr>b_frontmatter :=
             (if \<not> dict_has fm ''tags'' then dict_set ''tags'' (PList [PStr ''excalidraw'']) fm
              else fm)\<rparr>)"

definition with_text_elements :: "string \<Rightarrow> ExcalidrawNoteBuilder \<Rightarrow> ExcalidrawNoteBuilder" where
  "with_text_elements text b = b\<lparr>b_text_elements := text\<rparr>"

definition auto_extract_text_elements ::
  "(nat \<Rightarrow> nat) \<Rightarrow> nat \<Rightarrow> pydict list \<Rightarrow> ExcalidrawNoteBuilder
     \<Rightarrow> py_error + (ExcalidrawNoteBuilder \<times> nat)" where
  "auto_extract_text_elements rnd n elements b =
     bind (extract_texts rnd n elements)
       (\<lambda>(texts, n'). Inr (b\<lparr>b_text_elements := str_join [CHR 0x0A, CHR 0x0A] texts\<rparr>, n'))"

section \<open>\<^verbatim>\<open>build_excalidraw_note\<close> (excalidraw.py)\<close>

text \<open>The builder as \<^verbatim>\<open>build_excalidraw_note\<close> has set it up when it calls
  \<^verbatim>\<open>build()\<close>, which only reads it.\<close>

definition note_builder ::
  "(pyval \<Rightarrow> string) \<Rightarrow> (nat \<Rightarrow> nat) \<Rightarrow> nat \<Rightarrow> pydict list \<Rightarrow> pydict option
     \<Rightarrow> pydict option \<Rightarrow> string option \<Rightarrow> py_error + (ExcalidrawNoteBuilder \<times> nat)" where
  "note_builder repr_rest rnd n elements app_state frontmatter text_elements =
     (let b0 = init_builder;
          b1 = (case frontmatter of
                  Some f \<Rightarrow> (if f \<noteq> [] then with_frontmatter f b0 else b0)
                | None \<Rightarrow> b0);
          b2 = (case app_state of
                  Some a \<Rightarrow> (if a \<noteq> [] then with_app_state (Some a) b1 else b1)
                | None \<Rightarrow> b1)
      in bind (case text_elements of
                 Some t \<Rightarrow> (if t \<noteq> [] then Inr (with_text_elements t b2, n)
                            else auto_extract_text_elements rnd n elements b2)
               | None \<Rightarrow> auto_extract_text_elements rnd n elements b2)
           (\<lambda>(b3, n'). with_elements repr_rest rnd n' elements b3))"

section \<open>\<^verbatim>\<open>SaveExcalidrawToolHandler._build_excalidraw_note\<close> (tools.py)\<close>

text \<open>
  The handler builds the note inline, without the classes of \<^verbatim>\<open>excalidraw.py\<close>. Its
  steps are named after the variables they assign. The frontmatter (lines 709-713):
\<close>

definition final_frontmatter :: "pydict \<Rightarrow> pydict" where
  "final_frontmatter frontmatter =
     dict_update
       [(''excalidraw-plugin'', PStr ''parsed''),
        (''tags'', dict_get frontmatter ''tags'' (PList [PStr ''excalidraw'']))]
       frontmatter"

text \<open>The text index (lines 753-776): \<open>text_content\<close> of one element, the loop that
  collects \<open>extracted_texts\<close>, and the resulting \<open>text_elements\<close>.\<close>

definition text_content_of :: "pydict \<Rightarrow> pyval" where
  "text_content_of element =
     (if dict_has element ''text'' \<and> truthy (dict_get element ''text'' PNone)
      then dict_get element ''text'' PNone
      else if dict_has element ''label'' then
        (case dict_get element ''label'' PNone of
           PDict label \<Rightarrow> dict_get label ''text'' (PStr [])
         | PStr label \<Rightarrow> PStr label
         | _ \<Rightarrow> PNone)
      else PNone)"



text \<open>The copy of an element with all required fields (lines 785-812), and the fields
  added to it for arrows and lines (lines 815-821).\<close>

definition processed_element :: "pydict \<Rightarrow> pydict" where
  "processed_element element =
        [(''id'', dict_get element ''id'' (PStr [])),
         (''type'', dict_get element ''type'' (PStr [])),
         (''x'', dict_get element ''x'' (PInt 0)),
         (''y'', dict_get element ''y'' (PInt 0)),
         (''width'', dict_get element ''width'' (PInt 0)),
         (''height'', dict_get element ''height'' (PInt 0)),
         (''angle'', dict_get element ''angle'' (PInt 0)),
         (''strokeColor'', dict_get element ''strokeColor'' (PStr ''#1e1e1e'')),
         (''backgroundColor'', dict_get element ''backgroundColor'' (PStr ''transparent'')),
         (''fillStyle'', dict_get element ''fillStyle'' (PStr ''solid'')),
         (''strokeWidth'', dict_get element ''strokeWidth'' (PInt 2)),
         (''strokeStyle'', dict_get element ''strokeStyle'' (PStr ''solid'')),
         (''roughness'', dict_get element ''roughness'' (PInt 1)),
         (''opacity'', dict_get element ''opacity'' (PInt 100)),
         (''groupIds'', dict_get element ''groupIds'' (PList [])),
         (''frameId'', dict_get element ''frameId'' PNone),
         (''roundness'', dict_get element ''roundness'' PNone),
         (''seed'', dict_get element ''seed'' (PInt 1)),
         (''version'', dict_get element ''version'' (PInt 1)),
         (''versionNonce'', dict_get element ''versionNonce'' (PInt 1)),
         (''isDeleted'', dict_get element ''isDeleted'' (PBool False)),
         (''boundElements'', dict_get element ''boundElements'' (PList [])),
         (''updated'', dict_get element ''updated'' (PInt 1)),
         (''link'', dict_get element ''link'' PNone),
         (''locked'', dict_get element ''locked'' (PBool False))]"

definition type_specific_fields :: "pydict \<Rightarrow> pydict \<Rightarrow> pydict" where
  "type_specific_fields element pe =
     (if dict_get element ''type'' PNone = PStr ''arrow''
            \<or> dict_get element ''type'' PNone = PStr ''line''
         then dict_update pe
           [(''points'', dict_get element ''points''
               (PList [PList [PInt 0, PInt 0],
                       PList [dict_get element ''width'' (PInt 100),
                              dict_get element ''height'' (PInt 0)]])),
            (''lastCommittedPoint'', dict_get element ''lastCommittedPoint'' PNone),
            (''startBinding'', dict_get element ''startBinding'' PNone),
            (''endBinding'', dict_get element ''endBinding'' PNone),
            (''startArrowhead'', dict_get element ''startArrowhead'' PNone),
            (''endArrowhead'', dict_get element ''endArrowhead'' (PStr ''arrow''))]
         else pe)"

text \<open>The label text (lines 825-829): a truthy text must be a string to have
  \<^verbatim>\<open>replace\<close>.\<close>

definition label_text_of :: "pyval \<Rightarrow> py_error + pyval" where
  "label_text_of label =
     (let label_text = (case label of PDict d \<Rightarrow> dict_get d ''text'' (PStr []) | _ \<Rightarrow> label)
      in if truthy label_text then
           (case label_text of
              PStr s \<Rightarrow>
                Inr (PStr (str_replace ''<br />'' [CHR 0x0A]
                            (str_replace ''<br/>'' [CHR 0x0A]
                              (str_replace ''<br>'' [CHR 0x0A] s))))
            | _ \<Rightarrow> Inl AttributeError)
         else Inr label_text)"

text \<open>The text element made for a label (lines 848-883).\<close>

definition text_element ::
  "pydict \<Rightarrow> string \<Rightarrow> pyval \<Rightarrow> pyval \<Rightarrow> pyval \<Rightarrow> pyval \<Rightarrow> pyval \<Rightarrow> pyval \<Rightarrow> pydict" where
  "text_element element text_id text_x text_y text_width text_height label_text font_size =
     [(''id'', PStr text_id), (''type'', PStr ''text''),
      (''x'', text_x), (''y'', text_y), (''width'', text_width), (''height'', text_height),
      (''angle'', PInt 0),
      (''strokeColor'', dict_get element ''strokeColor'' (PStr ''#1e1e1e'')),
      (''backgroundColor'', PStr ''transparent''),
      (''fillStyle'', PStr ''solid''), (''strokeWidth'', PInt 2),
      (''strokeStyle'', PStr ''solid''), (''roughness'', PInt 1), (''opacity'', PInt 100),
      (''groupIds'', PList []), (''frameId'', PNone), (''roundness'', PNone),
      (''seed'', PInt 1), (''version'', PInt 1), (''versionNonce'', PInt 1),
      (''isDeleted'', PBool False), (''boundElements'', PList []), (''updated'', PInt 1),
      (''link'', PNone), (''locked'', PBool False),
      (''text'', label_text), (''fontSize'', font_size),
      (''fontFamily'', dict_get element ''fontFamily'' (PInt 1)),
      (''textAlign'', PStr ''center''), (''verticalAlign'', PStr ''middle''),
      (''containerId'', dict_get element ''id'' (PStr [])),
      (''originalText'', label_text), (''autoResize'', PBool True),
      (''lineHeight'', PFloat (125 / 100))]"

text \<open>One round of the loop over \<open>elements\<close> (lines 783-904): what it appends to
  \<open>processed_elements\<close>.\<close>

definition process_raw_element ::
  "(nat \<Rightarrow> nat) \<Rightarrow> nat \<Rightarrow> pydict \<Rightarrow> py_error + (pydict list \<times> nat)" where
  "process_raw_element rnd n element =
     (let pe = type_specific_fields element (processed_element element)
      in if dict_has element ''label'' \<and> truthy (dict_get element ''label'' PNone) then
           bind (label_text_of (dict_get element ''label'' PNone)) (\<lambda>label_text.
             if truthy label_text then
               (let (text_id, n') = generate_id rnd n 8;
                    font_size = dict_get element ''fontSize'' (PInt 20)
                in bind (py_len label_text) (\<lambda>l.
                   bind (py_mul l font_size) (\<lambda>lf.
                   bind (py_mul lf (PFloat (6 / 10))) (\<lambda>text_width.
                   bind (py_mul font_size (PFloat (125 / 100))) (\<lambda>text_height.
                   bind (py_sub (dict_get element ''width'' (PInt 0)) text_width) (\<lambda>dw.
                   bind (py_truediv dw (PInt 2)) (\<lambda>hw.
                   bind (py_add (dict_get element ''x'' (PInt 0)) hw) (\<lambda>text_x.
                   bind (py_sub (dict_get element ''height'' (PInt 0)) text_height) (\<lambda>dh.
                   bind (py_truediv dh (PInt 2)) (\<lambda>hh.
                   bind (py_add (dict_get element ''y'' (PInt 0)) hh) (\<lambda>text_y.
                     Inr ([dict_set ''boundElements''
                             (PList [PDict [(''type'', PStr ''text''), (''id'', PStr text_id)]])
                             pe,
                           text_element element text_id text_x text_y text_width text_height
                             label_text font_size], n'))))))))))))
             else Inr ([pe], n))
         else if dict_has element ''text'' then
           Inr ([dict_update pe
                   [(''text'', dict_get element ''text'' PNone),
                    (''fontSize'', dict_get element ''fontSize'' (PInt 20)),
                    (''fontFamily'', dict_get element ''fontFamily'' (PInt 1)),
                    (''textAlign'', dict_get element ''textAlign'' (PStr ''left'')),
                    (''verticalAlign'', dict_get element ''verticalAlign'' (PStr ''top'')),
                    (''baseline'', dict_get element ''baseline'' (PInt 18)),
                    (''containerId'', dict_get element ''containerId'' PNone),
                    (''originalText'',
                       dict_get element ''originalText'' (dict_get element ''text'' PNone)),
                    (''autoResize'', dict_get element ''autoResize'' (PBool True)),
                    (''lineHeight'', dict_get element ''lineHeight'' (PFloat (125 / 100)))]], n)
         else Inr ([pe], n))"

fun processed_elements_loop ::
  "(nat \<Rightarrow> nat) \<Rightarrow> pydict list \<Rightarrow> pydict list \<times> nat \<Rightarrow> py_error + (pydict list \<times> nat)" where
  "processed_elements_loop rnd [] st = Inr st"
| "processed_elements_loop rnd (element # rest) (processed_elements, n) =
     bind (process_raw_element rnd n element)
       (\<lambda>(es, n'). processed_elements_loop rnd rest (processed_elements @ es, n'))"

section \<open>The properties, in the words of the specification\<close>

text \<open>The schema defaults the specification documents, and the six core fields, for
  which the tool handler has defaults and the dataclass has none.\<close>

definition documented_defaults :: "(string \<times> pyval) list" where
  "documented_defaults =
     [(''angle'', PInt 0), (''strokeColor'', PStr ''#1e1e1e''),
      (''backgroundColor'', PStr ''transparent''), (''fillStyle'', PStr ''solid''),
      (''strokeWidth'', PInt 2), (''strokeStyle'', PStr ''solid''), (''roughness'', PInt 1),
      (''opacity'', PInt 100), (''groupIds'', PList []), (''frameId'', PNone),
      (''roundness'', PNone), (''seed'', PInt 1), (''version'', PInt 1),
      (''versionNonce'', PInt 1), (''isDeleted'', PBool False), (''boundElements'', PList []),
      (''updated'', PInt 1), (''link'', PNone), (''locked'', PBool False)]"

definition core_defaults :: "(string \<times> pyval) list" where
  "core_defaults =
     [(''id'', PStr []), (''type'', PStr []), (''x'', PInt 0), (''y'', PInt 0),
      (''width'', PInt 0), (''height'', PInt 0)]"

definition core_present :: "pydict \<Rightarrow> bool" where
  "core_present data =
     (dict_has data ''id'' \<and> dict_has data ''type'' \<and> dict_has data ''x''
      \<and> dict_has data ''y'' \<and> dict_has data ''width'' \<and> dict_has data ''height'')"

text \<open>The keys the tool handler adds for arrows and lines, and for text.\<close>

definition line_fields :: "string list" where
  "line_fields = [''points'', ''lastCommittedPoint'', ''startBinding'', ''endBinding'',
     ''startArrowhead'', ''endArrowhead'']"






text \<open>A value is a number when arithmetic accepts it; \<open>num_val\<close> is its value.\<close>

definition is_number :: "pyval \<Rightarrow> bool" where
  "is_number v = (num_of v \<noteq> None)"

definition num_val :: "pyval \<Rightarrow> rat" where
  "num_val v = (case num_of v of Some x \<Rightarrow> rat_of_num x | None \<Rightarrow> 0)"

text \<open>For the examples: a random source whose draws are all 0, so that every id is
  \<^verbatim>\<open>AAAAAAAA\<close>, and a rendering for the values \<open>py_str\<close> leaves open, which
  no example applies.\<close>

definition rnd0 :: "nat \<Rightarrow> nat" where
  "rnd0 i = 0"

definition no_repr :: "pyval \<Rightarrow> string" where
  "no_repr v = []"

section \<open>Facts about \<open>str_replace\<close>\<close>

lemma str_replace_Nil: "old \<noteq> [] \<Longrightarrow> str_replace old new [] = []"
  by (simp add: str_replace.simps)

lemma str_replace_match:
  "old \<noteq> [] \<Longrightarrow> prefix old s \<Longrightarrow>
   str_replace old new s = new @ str_replace old new (drop (length old) s)"
  by (subst str_replace.simps) auto

lemma str_replace_step:
  "old \<noteq> [] \<Longrightarrow> \<not> prefix old (c # cs) \<Longrightarrow>
   str_replace old new (c # cs) = c # str_replace old new cs"
  by (subst str_replace.simps) auto






section \<open>The sanitizer\<close>



section \<open>The path written by the save tool\<close>

lemma md_overlap:
  assumes "suffix xs' ''.md''" "xs' @ rest = ''.md''" "rest \<noteq> []"
  shows "rest = ''.md''"
proof -
  from assms(1) have "xs' \<in> set (suffixes ''.md'')" by (simp only: in_set_suffixes)
  then have "xs' = [] \<or> xs' = ''d'' \<or> xs' = ''md'' \<or> xs' = ''.md''" by auto
  with assms(2,3) show ?thesis by auto
qed

text \<open>The occurrence of \<^verbatim>\<open>.md\<close> at the end is among those replaced.\<close>

lemma replace_md_suffix:
  "suffix ''.md'' s \<Longrightarrow> suffix ''.excalidraw.md'' (str_replace ''.md'' ''.excalidraw.md'' s)"
proof (induction "length s" arbitrary: s rule: less_induct)
  case less
  show ?case
  proof (cases s)
    case Nil
    with less.prems show ?thesis by simp
  next
    case (Cons c cs)
    show ?thesis
    proof (cases "prefix ''.md'' s")
      case True
      let ?rest = "drop (length ''.md'') s"
      have s: "s = ''.md'' @ ?rest" using True by (metis append_eq_conv_conj prefixE)
      have eq: "str_replace ''.md'' ''.excalidraw.md'' s
                = ''.excalidraw.md'' @ str_replace ''.md'' ''.excalidraw.md'' ?rest"
        using True by (simp add: str_replace_match)
      show ?thesis
      proof (cases "?rest = []")
        case True
        then show ?thesis unfolding eq by (simp add: str_replace_Nil)
      next
        case False
        from less.prems s have "suffix ''.md'' (''.md'' @ ?rest)" by simp
        then have "suffix ''.md'' ?rest \<or> (\<exists>xs'. suffix xs' ''.md'' \<and> ''.md'' = xs' @ ?rest)"
          unfolding suffix_append by blast
        then have sr: "suffix ''.md'' ?rest"
          using md_overlap False by (metis suffix_order.order_refl)
        have "length ?rest < length s" using Cons by simp
        from less.hyps [OF this sr] show ?thesis
          unfolding eq by (rule suffix_appendI)
      qed
    next
      case False
      have "suffix ''.md'' cs"
        using less.prems False Cons by (auto simp: suffix_Cons)
      moreover have "length cs < length s" using Cons by simp
      ultimately have "suffix ''.excalidraw.md'' (str_replace ''.md'' ''.excalidraw.md'' cs)"
        using less.hyps by blast
      then show ?thesis
        using False Cons by (simp add: str_replace_step suffix_ConsI)
    qed
  qed
qed

text \<open>
  C10. Whenever the save tool reaches its write, the path it passes to
  \<^verbatim>\<open>put_content\<close> ends with \<^verbatim>\<open>.excalidraw.md\<close>: a path that already ends so is
  passed unchanged, a path ending with \<^verbatim>\<open>.md\<close> has its \<^verbatim>\<open>.md\<close> occurrences
  rewritten to \<^verbatim>\<open>.excalidraw.md\<close>, any other path has \<^verbatim>\<open>.excalidraw.md\<close>
  appended. The write is reached exactly when the note is built without an exception.
\<close>

theorem run_tool_filepath:
  assumes "arg_filepath args = Some filepath" and "arg_elements args = Some elements"
    and "build elements (arg_appState args)
           (case arg_frontmatter args of None \<Rightarrow> [] | Some f \<Rightarrow> f)
           (case arg_text_elements args of None \<Rightarrow> [] | Some t \<Rightarrow> t) = Inr content"
  shows "\<exists>path. run_tool build args = Inr (path, content)
           \<and> suffix ''.excalidraw.md'' path
           \<and> (suffix ''.excalidraw.md'' filepath \<longrightarrow> path = filepath)
           \<and> (\<not> suffix ''.excalidraw.md'' filepath \<and> suffix ''.md'' filepath
                \<longrightarrow> path = str_replace ''.md'' ''.excalidraw.md'' filepath)
           \<and> (\<not> suffix ''.md'' filepath \<longrightarrow> path = filepath @ ''.excalidraw.md'')"
proof -
  have ex: "suffix ''.excalidraw.md'' filepath \<Longrightarrow> suffix ''.md'' filepath"
    by (auto simp: suffix_def)
  have "suffix ''.excalidraw.md'' (filepath @ ''.excalidraw.md'')"
    by (simp add: suffix_def)
  with assms replace_md_suffix [of filepath] ex show ?thesis
    by (auto simp: run_tool_def bind_def)
qed

theorem run_tool_filepath_witness:
  "run_tool (\<lambda>es a f t. Inr ''note'')
     \<lparr>arg_filepath = Some ''a.md/b.md'', arg_elements = Some [], arg_appState = None,
      arg_frontmatter = None, arg_text_elements = None\<rparr>
   = Inr (''a.excalidraw.md/b.excalidraw.md'', ''note'')"
  using run_tool_filepath [of
      "\<lparr>arg_filepath = Some ''a.md/b.md'', arg_elements = Some [], arg_appState = None,
        arg_frontmatter = None, arg_text_elements = None\<rparr>"
      "''a.md/b.md''" "[]" "\<lambda>es a f t. Inr ''note''" "''note''"]
  by (simp add: str_replace.simps suffix_to_prefix)

section \<open>Dictionaries\<close>

lemma map_of_dict_set: "map_of (dict_set k v d) = (map_of d)(k \<mapsto> v)"
  by (induction d) (auto simp: fun_eq_iff)

lemma keys_dict_set:
  "map fst (dict_set k v d) = (if k \<in> set (map fst d) then map fst d else map fst d @ [k])"
  by (induction d) (auto simp: rev_image_eqI)

lemma set_keys_dict_set: "set (map fst (dict_set k v d)) = insert k (set (map fst d))"
  by (auto simp: keys_dict_set)

lemma map_of_dict_update_other:
  "k \<notin> fst ` set other \<Longrightarrow> map_of (dict_update d other) k = map_of d k"
  unfolding dict_update_def
  by (induction other arbitrary: d) (auto simp: map_of_dict_set)

lemma map_of_dict_update:
  "distinct (map fst other) \<Longrightarrow>
   map_of (dict_update d other) k = (case map_of other k of Some v \<Rightarrow> Some v | None \<Rightarrow> map_of d k)"
proof (induction other arbitrary: d)
  case Nil
  then show ?case by (simp add: dict_update_def)
next
  case (Cons p other)
  obtain k' v' where p: "p = (k', v')" by (cases p)
  have step: "dict_update d ((k', v') # other) = dict_update (dict_set k' v' d) other"
    by (simp add: dict_update_def)
  from Cons.prems p have d: "distinct (map fst other)" and nk: "k' \<notin> fst ` set other"
    by auto
  have ih: "map_of (dict_update (dict_set k' v' d) other) k
      = (case map_of other k of Some v \<Rightarrow> Some v | None \<Rightarrow> map_of (dict_set k' v' d) k)"
    by (rule Cons.IH [OF d])
  from nk have none: "map_of other k' = None" by (simp add: map_of_eq_None_iff)
  show ?case
    unfolding p step ih using none by (auto simp: map_of_dict_set split: option.splits)
qed

lemma keys_dict_update:
  "set (map fst (dict_update d other)) = set (map fst d) \<union> set (map fst other)"
  unfolding dict_update_def
proof (induction other arbitrary: d)
  case Nil
  then show ?case by simp
next
  case (Cons p other)
  obtain k v where p: "p = (k, v)" by (cases p)
  show ?case
    unfolding p by (simp add: Cons.IH set_keys_dict_set del: set_map)
qed

lemma map_of_known:
  "k \<in> set known_fields \<Longrightarrow> map_of (filter (\<lambda>(k, v). k \<in> set known_fields) data) k = map_of data k"
  by (induction data) auto

lemma dict_get_known:
  "k \<in> set known_fields \<Longrightarrow>
   dict_get (filter (\<lambda>(k, v). k \<in> set known_fields) data) k d = dict_get data k d"
  by (simp add: dict_get_def map_of_known)

lemma map_of_extra:
  "map_of (filter (\<lambda>(k, v). k \<notin> set known_fields) data) k
   = (if k \<in> set known_fields then None else map_of data k)"
  by (induction data) auto

lemma known_mem:
  "''id'' \<in> set known_fields" "''type'' \<in> set known_fields" "''x'' \<in> set known_fields"
  "''y'' \<in> set known_fields" "''width'' \<in> set known_fields"
  "''height'' \<in> set known_fields" "''angle'' \<in> set known_fields"
  "''strokeColor'' \<in> set known_fields" "''backgroundColor'' \<in> set known_fields"
  "''fillStyle'' \<in> set known_fields" "''strokeWidth'' \<in> set known_fields"
  "''strokeStyle'' \<in> set known_fields" "''roughness'' \<in> set known_fields"
  "''opacity'' \<in> set known_fields" "''groupIds'' \<in> set known_fields"
  "''frameId'' \<in> set known_fields" "''roundness'' \<in> set known_fields"
  "''seed'' \<in> set known_fields" "''version'' \<in> set known_fields"
  "''versionNonce'' \<in> set known_fields" "''isDeleted'' \<in> set known_fields"
  "''boundElements'' \<in> set known_fields" "''updated'' \<in> set known_fields"
  "''link'' \<in> set known_fields" "''locked'' \<in> set known_fields"
  by (simp_all add: known_fields_def)

section \<open>Reading and serialising an element\<close>

lemma from_dict_missing: "\<not> core_present data \<Longrightarrow> from_dict data = Inl TypeError"
  by (auto simp: core_present_def from_dict_def required_def bind_def dict_has_def
      map_of_known known_mem split: option.splits)


lemma from_dict_present:
  assumes "core_present data"
  shows "from_dict data = Inr
     \<lparr>el_id = dict_get data ''id'' PNone, el_type = dict_get data ''type'' PNone,
      el_x = dict_get data ''x'' PNone, el_y = dict_get data ''y'' PNone,
      el_width = dict_get data ''width'' PNone, el_height = dict_get data ''height'' PNone,
      angle = dict_get data ''angle'' (PInt 0),
      strokeColor = dict_get data ''strokeColor'' (PStr ''#1e1e1e''),
      backgroundColor = dict_get data ''backgroundColor'' (PStr ''transparent''),
      fillStyle = dict_get data ''fillStyle'' (PStr ''solid''),
      strokeWidth = dict_get data ''strokeWidth'' (PInt 2),
      strokeStyle = dict_get data ''strokeStyle'' (PStr ''solid''),
      roughness = dict_get data ''roughness'' (PInt 1),
      opacity = dict_get data ''opacity'' (PInt 100),
      groupIds = dict_get data ''groupIds'' (PList []),
      frameId = dict_get data ''frameId'' PNone,
      roundness = dict_get data ''roundness'' PNone,
      seed = dict_get data ''seed'' (PInt 1),
      version = dict_get data ''version'' (PInt 1),
      versionNonce = dict_get data ''versionNonce'' (PInt 1),
      isDeleted = dict_get data ''isDeleted'' (PBool False),
      boundElements = dict_get data ''boundElements'' (PList []),
      updated = dict_get data ''updated'' (PInt 1),
      link = dict_get data ''link'' PNone,
      locked = dict_get data ''locked'' (PBool False),
      extra_fields = filter (\<lambda>(k, v). k \<notin> set known_fields) data\<rparr>"
proof -
  from assms obtain i t vx vy w h where
    "map_of data ''id'' = Some i" "map_of data ''type'' = Some t"
    "map_of data ''x'' = Some vx" "map_of data ''y'' = Some vy"
    "map_of data ''width'' = Some w" "map_of data ''height'' = Some h"
    by (auto simp: core_present_def dict_has_def)
  then show ?thesis
    by (simp add: from_dict_def required_def bind_def dict_get_known map_of_known known_mem
        dict_get_def)
qed


lemma extra_keys_unknown:
  "k \<in> set known_fields \<Longrightarrow> k \<notin> fst ` set (filter (\<lambda>(k, v). k \<notin> set known_fields) data)"
  by auto


lemma to_dict_known:
  assumes "from_dict data = Inr e" and "k \<in> set known_fields"
  shows "map_of (to_dict e) k =
     map_of [(''id'', el_id e), (''type'', el_type e), (''x'', el_x e), (''y'', el_y e),
        (''width'', el_width e), (''height'', el_height e), (''angle'', angle e),
        (''strokeColor'', strokeColor e), (''backgroundColor'', backgroundColor e),
        (''fillStyle'', fillStyle e), (''strokeWidth'', strokeWidth e),
        (''strokeStyle'', strokeStyle e), (''roughness'', roughness e),
        (''opacity'', opacity e), (''groupIds'', groupIds e), (''frameId'', frameId e),
        (''roundness'', roundness e), (''seed'', seed e), (''version'', version e),
        (''versionNonce'', versionNonce e), (''isDeleted'', isDeleted e),
        (''boundElements'', boundElements e), (''updated'', updated e),
        (''link'', link e), (''locked'', locked e)] k"
proof -
  have cp: "core_present data"
    using assms(1) from_dict_missing by fastforce
  have "extra_fields e = filter (\<lambda>(k, v). k \<notin> set known_fields) data"
    using assms(1) from_dict_present [OF cp] by auto
  then have "k \<notin> fst ` set (extra_fields e)"
    using assms(2) by auto
  then show ?thesis
    unfolding to_dict_def by (rule map_of_dict_update_other)
qed


lemma to_dict_unknown:
  assumes "from_dict data = Inr e" and "distinct (map fst data)" and "k \<notin> set known_fields"
  shows "map_of (to_dict e) k = map_of data k"
proof -
  have cp: "core_present data"
    using assms(1) from_dict_missing by fastforce
  have ex: "extra_fields e = filter (\<lambda>(k, v). k \<notin> set known_fields) data"
    using assms(1) from_dict_present [OF cp] by auto
  have d: "distinct (map fst (extra_fields e))"
    unfolding ex using assms(2) by (rule distinct_map_filter)
  have m: "map_of (extra_fields e) k = map_of data k"
    unfolding ex using assms(3) by (simp add: map_of_extra)
  have b: "map_of [(''id'', el_id e), (''type'', el_type e), (''x'', el_x e), (''y'', el_y e),
        (''width'', el_width e), (''height'', el_height e), (''angle'', angle e),
        (''strokeColor'', strokeColor e), (''backgroundColor'', backgroundColor e),
        (''fillStyle'', fillStyle e), (''strokeWidth'', strokeWidth e),
        (''strokeStyle'', strokeStyle e), (''roughness'', roughness e),
        (''opacity'', opacity e), (''groupIds'', groupIds e), (''frameId'', frameId e),
        (''roundness'', roundness e), (''seed'', seed e), (''version'', version e),
        (''versionNonce'', versionNonce e), (''isDeleted'', isDeleted e),
        (''boundElements'', boundElements e), (''updated'', updated e),
        (''link'', link e), (''locked'', locked e)] k = None"
    using assms(3) by (simp add: known_fields_def)
  show ?thesis
    unfolding to_dict_def map_of_dict_update [OF d] m b by (simp split: option.splits)
qed


lemma to_dict_keys:
  assumes "from_dict data = Inr e"
  shows "set (map fst (to_dict e)) = set known_fields \<union> set (map fst data)"
proof -
  have cp: "core_present data"
    using assms(1) from_dict_missing by fastforce
  have ex: "extra_fields e = filter (\<lambda>(k, v). k \<notin> set known_fields) data"
    using assms(1) from_dict_present [OF cp] by auto
  have "set (map fst (to_dict e)) = set known_fields \<union> set (map fst (extra_fields e))"
    unfolding to_dict_def keys_dict_update by (simp add: known_fields_def)
  also have "\<dots> = set known_fields \<union> set (map fst data)"
    unfolding ex by force
  finally show ?thesis .
qed

section \<open>Schema defaults\<close>

lemma processed_element_defaults:
  "\<forall>(k, d) \<in> set (core_defaults @ documented_defaults).
      map_of (processed_element raw) k = Some (dict_get raw k d)"
  by (simp add: core_defaults_def documented_defaults_def processed_element_def)

lemma processed_element_keys: "map fst (processed_element raw) = known_fields"
  by (simp add: processed_element_def known_fields_def)

lemma from_dict_defaults:
  assumes "from_dict raw = Inr e"
  shows "\<forall>(k, d) \<in> set documented_defaults. map_of (to_dict e) k = Some (dict_get raw k d)"
proof -
  have cp: "core_present raw"
    using assms from_dict_missing by fastforce
  note e = from_dict_present [OF cp, unfolded assms, simplified]
  show ?thesis
    unfolding documented_defaults_def
    by (simp add: to_dict_known [OF assms] known_mem) (simp add: e)
qed

lemma from_dict_core:
  assumes "from_dict raw = Inr e"
  shows "\<forall>(k, d) \<in> set core_defaults. map_of (to_dict e) k = map_of raw k"
proof -
  have cp: "core_present raw"
    using assms from_dict_missing by fastforce
  note e = from_dict_present [OF cp, unfolded assms, simplified]
  from cp obtain i t vx vy w h where
    "map_of raw ''id'' = Some i" "map_of raw ''type'' = Some t"
    "map_of raw ''x'' = Some vx" "map_of raw ''y'' = Some vy"
    "map_of raw ''width'' = Some w" "map_of raw ''height'' = Some h"
    by (auto simp: core_present_def dict_has_def)
  then show ?thesis
    unfolding core_defaults_def
    by (simp add: to_dict_known [OF assms] known_mem) (simp add: e dict_get_def)
qed

text \<open>
  C1 (amended). The tool handler's normalisation (tools.py, lines 785-812) has no failure
  path: for every raw record it yields exactly the 25 schema keys, each with the raw value
  when the record has the key and otherwise the default: the nineteen documented ones, the
  empty string for \<open>id\<close> and \<open>type\<close>, and 0 for \<open>x\<close>, \<open>y\<close>, \<open>width\<close> and
  \<open>height\<close>. \<^verbatim>\<open>ExcalidrawElement.from_dict\<close> followed by \<^verbatim>\<open>to_dict\<close> yields all
  schema keys with the same nineteen defaults when the record has the six core fields
  \<open>id\<close>, \<open>type\<close>, \<open>x\<close>, \<open>y\<close>, \<open>width\<close>, \<open>height\<close>, and raises
  \<^verbatim>\<open>TypeError\<close> when one of them is missing.
\<close>

theorem normalize_defaults:
  "(\<forall>(k, d) \<in> set (core_defaults @ documented_defaults).
       map_of (processed_element raw) k = Some (dict_get raw k d))
   \<and> map fst (processed_element raw) = known_fields
   \<and> (core_present raw \<longrightarrow>
        (\<exists>e. from_dict raw = Inr e
           \<and> set known_fields \<subseteq> set (map fst (to_dict e))
           \<and> (\<forall>(k, d) \<in> set documented_defaults.
                 map_of (to_dict e) k = Some (dict_get raw k d))
           \<and> (\<forall>(k, d) \<in> set core_defaults. map_of (to_dict e) k = map_of raw k)))
   \<and> (\<not> core_present raw \<longrightarrow> from_dict raw = Inl TypeError)"
proof (intro conjI impI)
  show "\<forall>(k, d) \<in> set (core_defaults @ documented_defaults).
       map_of (processed_element raw) k = Some (dict_get raw k d)"
    by (rule processed_element_defaults)
  show "map fst (processed_element raw) = known_fields"
    by (rule processed_element_keys)
  show "from_dict raw = Inl TypeError" if "\<not> core_present raw"
    using that by (rule from_dict_missing)
  show "\<exists>e. from_dict raw = Inr e
           \<and> set known_fields \<subseteq> set (map fst (to_dict e))
           \<and> (\<forall>(k, d) \<in> set documented_defaults.
                 map_of (to_dict e) k = Some (dict_get raw k d))
           \<and> (\<forall>(k, d) \<in> set core_defaults. map_of (to_dict e) k = map_of raw k)"
    if cp: "core_present raw"
  proof -
    from from_dict_present [OF cp] obtain e where e: "from_dict raw = Inr e" by blast
    have "set known_fields \<subseteq> set (map fst (to_dict e))"
      unfolding to_dict_keys [OF e] by blast
    with e from_dict_defaults [OF e] from_dict_core [OF e] show ?thesis by blast
  qed
qed

text \<open>C1 as stated fails for \<^verbatim>\<open>from_dict\<close>: a record without geometry fields is
  rejected.\<close>

theorem from_dict_rejects:
  "from_dict [(''id'', PStr ''r1''), (''type'', PStr ''rectangle'')] = Inl TypeError
   \<and> \<not> dict_has [(''id'', PStr ''r1''), (''type'', PStr ''rectangle'')] ''x''"
  by (simp add: from_dict_def required_def bind_def known_fields_def dict_has_def)

theorem normalize_defaults_witness:
  "map_of (processed_element [(''id'', PStr ''r1''), (''type'', PStr ''rectangle'')]) ''x''
     = Some (PInt 0)
   \<and> map_of (processed_element [(''id'', PStr ''r1''), (''type'', PStr ''rectangle'')])
       ''opacity'' = Some (PInt 100)
   \<and> from_dict [(''id'', PStr ''r1''), (''type'', PStr ''rectangle'')] = Inl TypeError
   \<and> (\<exists>e. from_dict [(''id'', PStr ''r1''), (''type'', PStr ''rectangle''), (''x'', PInt 0),
               (''y'', PInt 0), (''width'', PInt 100), (''height'', PInt 50)] = Inr e
          \<and> map_of (to_dict e) ''opacity'' = Some (PInt 100)
          \<and> map_of (to_dict e) ''locked'' = Some (PBool False))"
proof -
  let ?r1 = "[(''id'', PStr ''r1''), (''type'', PStr ''rectangle'')]"
  let ?r2 = "[(''id'', PStr ''r1''), (''type'', PStr ''rectangle''), (''x'', PInt 0),
               (''y'', PInt 0), (''width'', PInt 100), (''height'', PInt 50)]"
  have n1: "\<not> core_present ?r1" and c2: "core_present ?r2"
    by (simp_all add: core_present_def dict_has_def)
  have a: "map_of (processed_element ?r1) ''x'' = Some (PInt 0)
      \<and> map_of (processed_element ?r1) ''opacity'' = Some (PInt 100)
      \<and> from_dict ?r1 = Inl TypeError"
    using normalize_defaults [of ?r1] n1
    by (simp add: core_defaults_def documented_defaults_def dict_get_def)
  from normalize_defaults [of ?r2] c2 obtain e where
    e: "from_dict ?r2 = Inr e"
      "\<forall>(k, d) \<in> set documented_defaults. map_of (to_dict e) k = Some (dict_get ?r2 k d)"
    by blast
  from e(2) have "map_of (to_dict e) ''opacity'' = Some (PInt 100)
      \<and> map_of (to_dict e) ''locked'' = Some (PBool False)"
    by (simp add: documented_defaults_def dict_get_def)
  with e(1) a show ?thesis by blast
qed

section \<open>Unknown fields\<close>


lemma bindE:
  assumes "bind m f = Inr r"
  obtains v where "m = Inr v" and "f v = Inr r"
  using assms by (cases m) (auto simp: bind_def)





section \<open>Arrows and lines\<close>

lemma line_mem:
  "''points'' \<notin> set known_fields" "''lastCommittedPoint'' \<notin> set known_fields"
  "''startBinding'' \<notin> set known_fields" "''endBinding'' \<notin> set known_fields"
  "''startArrowhead'' \<notin> set known_fields" "''endArrowhead'' \<notin> set known_fields"
  by (simp_all add: known_fields_def)

lemma type_specific_fields_line:
  assumes "dict_get raw ''type'' PNone = PStr ''arrow'' \<or> dict_get raw ''type'' PNone = PStr ''line''"
  shows "map_of (type_specific_fields raw pe) k =
     (case map_of
        [(''points'', dict_get raw ''points''
               (PList [PList [PInt 0, PInt 0],
                       PList [dict_get raw ''width'' (PInt 100),
                              dict_get raw ''height'' (PInt 0)]])),
            (''lastCommittedPoint'', dict_get raw ''lastCommittedPoint'' PNone),
            (''startBinding'', dict_get raw ''startBinding'' PNone),
            (''endBinding'', dict_get raw ''endBinding'' PNone),
            (''startArrowhead'', dict_get raw ''startArrowhead'' PNone),
            (''endArrowhead'', dict_get raw ''endArrowhead'' (PStr ''arrow''))] k
      of Some v \<Rightarrow> Some v | None \<Rightarrow> map_of pe k)"
  using assms unfolding type_specific_fields_def
  by (simp only: if_True) (rule map_of_dict_update, simp)

text \<open>
  C3 (amended). For every raw element whose type is \<^verbatim>\<open>arrow\<close> or \<^verbatim>\<open>line\<close> the tool
  handler's normalisation adds \<open>points\<close>, \<open>lastCommittedPoint\<close>, \<open>startBinding\<close>,
  \<open>endBinding\<close>, \<open>startArrowhead\<close> (each of the last four null by default) and
  \<open>endArrowhead\<close> (default \<^verbatim>\<open>arrow\<close>); the default of \<open>points\<close> is the diagonal
  \<^verbatim>\<open>[[0,0],[width,height]]\<close>, with 100 for a missing width and 0 for a missing height.
  \<^verbatim>\<open>from_dict\<close> adds none of these keys: it passes on those the record has.
\<close>

theorem arrow_line_fields:
  assumes "dict_get raw ''type'' PNone = PStr ''arrow'' \<or> dict_get raw ''type'' PNone = PStr ''line''"
  shows "map_of (type_specific_fields raw (processed_element raw)) ''points''
       = Some (dict_get raw ''points''
               (PList [PList [PInt 0, PInt 0],
                       PList [dict_get raw ''width'' (PInt 100),
                              dict_get raw ''height'' (PInt 0)]]))
    \<and> map_of (type_specific_fields raw (processed_element raw)) ''lastCommittedPoint''
       = Some (dict_get raw ''lastCommittedPoint'' PNone)
    \<and> map_of (type_specific_fields raw (processed_element raw)) ''startBinding''
       = Some (dict_get raw ''startBinding'' PNone)
    \<and> map_of (type_specific_fields raw (processed_element raw)) ''endBinding''
       = Some (dict_get raw ''endBinding'' PNone)
    \<and> map_of (type_specific_fields raw (processed_element raw)) ''startArrowhead''
       = Some (dict_get raw ''startArrowhead'' PNone)
    \<and> map_of (type_specific_fields raw (processed_element raw)) ''endArrowhead''
       = Some (dict_get raw ''endArrowhead'' (PStr ''arrow''))
    \<and> (\<forall>e. from_dict raw = Inr e \<and> distinct (map fst raw) \<longrightarrow>
          (\<forall>k \<in> set line_fields. map_of (to_dict e) k = map_of raw k))"
proof -
  have "\<forall>k \<in> set line_fields. map_of (to_dict e) k = map_of raw k"
    if "from_dict raw = Inr e" "distinct (map fst raw)" for e
    using to_dict_unknown [OF that] by (simp add: line_fields_def line_mem)
  then show ?thesis
    by (simp add: type_specific_fields_line [OF assms])
qed

text \<open>C3 as stated fails: with a height other than 0 the default end point is not
  \<^verbatim>\<open>[width, 0]\<close>.\<close>

theorem arrow_default_points_diagonal:
  "map_of (type_specific_fields
             [(''type'', PStr ''arrow''), (''width'', PInt 100), (''height'', PInt 50)]
             (processed_element
                [(''type'', PStr ''arrow''), (''width'', PInt 100), (''height'', PInt 50)]))
     ''points''
   = Some (PList [PList [PInt 0, PInt 0], PList [PInt 100, PInt 50]])"
  by (simp add: type_specific_fields_def dict_get_def processed_element_def dict_update_def)

text \<open>The scenario of the specification: an arrow of width 100 and height 0 without
  points.\<close>

theorem arrow_line_fields_witness:
  "map_of (type_specific_fields
             [(''type'', PStr ''arrow''), (''width'', PInt 100), (''height'', PInt 0)]
             (processed_element
                [(''type'', PStr ''arrow''), (''width'', PInt 100), (''height'', PInt 0)]))
     ''points''
   = Some (PList [PList [PInt 0, PInt 0], PList [PInt 100, PInt 0]])
   \<and> map_of (type_specific_fields
             [(''type'', PStr ''arrow''), (''width'', PInt 100), (''height'', PInt 0)]
             (processed_element
                [(''type'', PStr ''arrow''), (''width'', PInt 100), (''height'', PInt 0)]))
     ''endArrowhead''
   = Some (PStr ''arrow'')"
proof -
  let ?r = "[(''type'', PStr ''arrow''), (''width'', PInt 100), (''height'', PInt 0)]"
  have t: "dict_get ?r ''type'' PNone = PStr ''arrow'' \<or> dict_get ?r ''type'' PNone = PStr ''line''"
    by (simp add: dict_get_def)
  from arrow_line_fields [OF t] show ?thesis
    by (simp add: dict_get_def)
qed

section \<open>Frontmatter\<close>

lemma dict_has_keys: "dict_has d k \<longleftrightarrow> k \<in> set (map fst d)"
  by (simp add: dict_has_def map_of_eq_None_iff)

lemma final_frontmatter_lookup:
  assumes "distinct (map fst fm)"
  shows "map_of (final_frontmatter fm) k =
     (case map_of fm k of Some v \<Rightarrow> Some v
      | None \<Rightarrow> map_of [(''excalidraw-plugin'', PStr ''parsed''),
                         (''tags'', PList [PStr ''excalidraw''])] k)"
  unfolding final_frontmatter_def map_of_dict_update [OF assms]
  by (auto simp: dict_get_def split: option.splits)

lemma with_frontmatter_lookup:
  assumes "distinct (map fst fm)"
  shows "map_of (b_frontmatter (with_frontmatter fm init_builder)) k =
     (case map_of fm k of Some v \<Rightarrow> Some v
      | None \<Rightarrow> map_of [(''excalidraw-plugin'', PStr ''parsed''),
                         (''tags'', PList [PStr ''excalidraw''])] k)"
proof -
  have "dict_has (dict_update (b_frontmatter init_builder) fm) ''tags''"
    unfolding dict_has_keys keys_dict_update by (simp add: init_builder_def)
  then show ?thesis
    by (simp add: with_frontmatter_def map_of_dict_update [OF assms] init_builder_def)
qed

lemma with_frontmatter_has_tags: "dict_has (b_frontmatter (with_frontmatter fm b)) ''tags''"
  by (simp add: with_frontmatter_def Let_def dict_has_keys set_keys_dict_set del: set_map)

lemma with_frontmatter_reinstates:
  "\<not> dict_has (dict_update (b_frontmatter b) fm) ''tags'' \<Longrightarrow>
   map_of (b_frontmatter (with_frontmatter fm b)) ''tags'' = Some (PList [PStr ''excalidraw''])"
  by (simp add: with_frontmatter_def Let_def map_of_dict_set)

lemma note_builder_frontmatter:
  assumes "note_builder repr_rest rnd n elements app_state fmo te = Inr (b, n')"
  shows "b_frontmatter b =
     (case fmo of
        Some f \<Rightarrow> if f \<noteq> [] then b_frontmatter (with_frontmatter f init_builder)
                  else b_frontmatter init_builder
      | None \<Rightarrow> b_frontmatter init_builder)"
  using assms
  by (auto simp: note_builder_def Let_def with_elements_def auto_extract_text_elements_def
      with_text_elements_def with_app_state_def
      split: option.splits if_splits prod.splits elim!: bindE)

text \<open>
  C4 (amended). For every caller-supplied frontmatter mapping, and for none, the frontmatter
  of the note has a \<open>tags\<close> key, in the tool handler and in the builder. The defaults
  \<^verbatim>\<open>excalidraw-plugin: parsed\<close> and \<^verbatim>\<open>tags: [excalidraw]\<close> are merged under the
  caller's entries and the caller's value wins on every key, \<open>tags\<close> included: the value
  of \<open>tags\<close> is the caller's when the caller gives one, whatever it is, and the default
  list otherwise. \<^verbatim>\<open>with_frontmatter\<close> puts the default list back when the merged
  mapping has no \<open>tags\<close> key.
\<close>

theorem frontmatter_tags:
  assumes "distinct (map fst fm)"
  shows "dict_has (final_frontmatter fm) ''tags''
     \<and> map_of (final_frontmatter fm) ''tags''
         = Some (dict_get fm ''tags'' (PList [PStr ''excalidraw'']))
     \<and> (\<forall>k v. map_of fm k = Some v \<longrightarrow> map_of (final_frontmatter fm) k = Some v)
     \<and> (\<forall>k. map_of fm k = None \<longrightarrow>
            map_of (final_frontmatter fm) k
            = map_of [(''excalidraw-plugin'', PStr ''parsed''),
                      (''tags'', PList [PStr ''excalidraw''])] k)
     \<and> dict_has (b_frontmatter (with_frontmatter fm init_builder)) ''tags''
     \<and> map_of (b_frontmatter (with_frontmatter fm init_builder)) ''tags''
         = Some (dict_get fm ''tags'' (PList [PStr ''excalidraw'']))
     \<and> (\<forall>k v. map_of fm k = Some v \<longrightarrow>
            map_of (b_frontmatter (with_frontmatter fm init_builder)) k = Some v)
     \<and> (\<forall>k. map_of fm k = None \<longrightarrow>
            map_of (b_frontmatter (with_frontmatter fm init_builder)) k
            = map_of (b_frontmatter init_builder) k)
     \<and> (\<forall>b. dict_has (b_frontmatter (with_frontmatter fm b)) ''tags'')
     \<and> (\<forall>b. \<not> dict_has (dict_update (b_frontmatter b) fm) ''tags'' \<longrightarrow>
            map_of (b_frontmatter (with_frontmatter fm b)) ''tags''
            = Some (PList [PStr ''excalidraw'']))
     \<and> dict_has (b_frontmatter init_builder) ''tags''
     \<and> dict_has (final_frontmatter []) ''tags''
     \<and> (\<forall>repr_rest rnd n elements app_state fmo te b n'.
           note_builder repr_rest rnd n elements app_state fmo te = Inr (b, n') \<longrightarrow>
           dict_has (b_frontmatter b) ''tags'')"
proof -
  have a: "dict_has (final_frontmatter fm) ''tags''"
    by (simp add: dict_has_def final_frontmatter_lookup [OF assms] split: option.splits)
  have b: "dict_has (b_frontmatter init_builder) ''tags''"
    "dict_has (final_frontmatter []) ''tags''"
    by (simp_all add: dict_has_def init_builder_def final_frontmatter_def dict_update_def)
  have c: "map_of (b_frontmatter init_builder) k
     = map_of [(''excalidraw-plugin'', PStr ''parsed''), (''tags'', PList [PStr ''excalidraw''])] k"
    for k by (simp add: init_builder_def)
  have d: "dict_has (b_frontmatter b') ''tags''"
    if "note_builder repr_rest rnd n elements app_state fmo te = Inr (b', n')"
    for repr_rest rnd n elements app_state fmo te b' n'
    using note_builder_frontmatter [OF that] b(1) with_frontmatter_has_tags
    by (auto simp: dict_has_def split: option.splits if_splits)
  have "dict_has (final_frontmatter fm) ''tags''
     \<and> map_of (final_frontmatter fm) ''tags''
         = Some (dict_get fm ''tags'' (PList [PStr ''excalidraw'']))
     \<and> (\<forall>k v. map_of fm k = Some v \<longrightarrow> map_of (final_frontmatter fm) k = Some v)
     \<and> (\<forall>k. map_of fm k = None \<longrightarrow>
            map_of (final_frontmatter fm) k
            = map_of [(''excalidraw-plugin'', PStr ''parsed''),
                      (''tags'', PList [PStr ''excalidraw''])] k)
     \<and> dict_has (b_frontmatter (with_frontmatter fm init_builder)) ''tags''
     \<and> map_of (b_frontmatter (with_frontmatter fm init_builder)) ''tags''
         = Some (dict_get fm ''tags'' (PList [PStr ''excalidraw'']))
     \<and> (\<forall>k v. map_of fm k = Some v \<longrightarrow>
            map_of (b_frontmatter (with_frontmatter fm init_builder)) k = Some v)
     \<and> (\<forall>k. map_of fm k = None \<longrightarrow>
            map_of (b_frontmatter (with_frontmatter fm init_builder)) k
            = map_of (b_frontmatter init_builder) k)
     \<and> (\<forall>b. dict_has (b_frontmatter (with_frontmatter fm b)) ''tags'')
     \<and> (\<forall>b. \<not> dict_has (dict_update (b_frontmatter b) fm) ''tags'' \<longrightarrow>
            map_of (b_frontmatter (with_frontmatter fm b)) ''tags''
            = Some (PList [PStr ''excalidraw'']))
     \<and> dict_has (b_frontmatter init_builder) ''tags''
     \<and> dict_has (final_frontmatter []) ''tags''"
    using a b with_frontmatter_has_tags with_frontmatter_reinstates
    by (simp add: final_frontmatter_lookup [OF assms] with_frontmatter_lookup [OF assms] c
        dict_get_def split: option.splits)
  with d show ?thesis by blast
qed

text \<open>C4 as stated fails: a caller's empty \<open>tags\<close> list is kept, so the value is
  not always a non-empty sequence.\<close>

theorem empty_tags_kept:
  "map_of (final_frontmatter [(''tags'', PList [])]) ''tags'' = Some (PList [])
   \<and> map_of (b_frontmatter (with_frontmatter [(''tags'', PList [])] init_builder)) ''tags''
       = Some (PList [])"
  by (simp add: final_frontmatter_def with_frontmatter_def init_builder_def dict_update_def
      dict_get_def dict_has_def)

theorem frontmatter_tags_witness:
  "map_of (final_frontmatter [(''author'', PStr ''me'')]) ''tags''
     = Some (PList [PStr ''excalidraw''])
   \<and> map_of (final_frontmatter [(''author'', PStr ''me'')]) ''author'' = Some (PStr ''me'')
   \<and> map_of (b_frontmatter (with_frontmatter [(''author'', PStr ''me'')] init_builder)) ''tags''
     = Some (PList [PStr ''excalidraw''])
   \<and> map_of (b_frontmatter (with_frontmatter [(''author'', PStr ''me'')] init_builder))
       ''author'' = Some (PStr ''me'')"
proof -
  have d: "distinct (map fst [(''author'', PStr ''me'')])" by simp
  from frontmatter_tags [OF d] show ?thesis
    by (simp add: dict_get_def)
qed

section \<open>Arithmetic on numbers\<close>

lemma is_numE:
  assumes "is_number a"
  obtains x where "num_of a = Some x" and "num_val a = rat_of_num x"
  using assms by (auto simp: is_number_def num_val_def)

lemma py_mul_float: "is_number a \<Longrightarrow> py_mul a (PFloat r) = Inr (PFloat (num_val a * r))"
  by (erule is_numE, case_tac x) (simp_all add: py_mul_def)

lemma py_mul_float_left: "is_number b \<Longrightarrow> py_mul (PFloat r) b = Inr (PFloat (r * num_val b))"
  by (erule is_numE) (simp add: py_mul_def)

lemma py_mul_int:
  "is_number b \<Longrightarrow> \<exists>v. py_mul (PInt i) b = Inr v \<and> is_number v \<and> num_val v = of_int i * num_val b"
  by (erule is_numE, case_tac x) (simp_all add: py_mul_def is_number_def num_val_def)

lemma py_sub_float: "is_number a \<Longrightarrow> py_sub a (PFloat r) = Inr (PFloat (num_val a - r))"
  by (erule is_numE, case_tac x) (simp_all add: py_sub_def)

lemma py_add_float: "is_number a \<Longrightarrow> py_add a (PFloat r) = Inr (PFloat (num_val a + r))"
  by (erule is_numE, case_tac x) (simp_all add: py_add_def)

lemma py_truediv_2: "py_truediv (PFloat r) (PInt 2) = Inr (PFloat (r / 2))"
  by (simp add: py_truediv_def)

lemma is_num_PFloat [simp]: "is_number (PFloat r)" "num_val (PFloat r) = r"
  by (simp_all add: is_number_def num_val_def)

text \<open>The box of a label text: the four assignments \<open>text_width\<close>, \<open>text_height\<close>,
  \<open>text_x\<close>, \<open>text_y\<close>, which both paths make in the same way.\<close>

lemma label_box:
  assumes "is_number fs" "is_number vx" "is_number vy" "is_number w" "is_number h"
  shows "bind (py_len (PStr s)) (\<lambda>l.
         bind (py_mul l fs) (\<lambda>lf.
         bind (py_mul lf (PFloat (6 / 10))) (\<lambda>text_width.
         bind (py_mul fs (PFloat (125 / 100))) (\<lambda>text_height.
         bind (py_sub w text_width) (\<lambda>dw.
         bind (py_truediv dw (PInt 2)) (\<lambda>hw.
         bind (py_add vx hw) (\<lambda>text_x.
         bind (py_sub h text_height) (\<lambda>dh.
         bind (py_truediv dh (PInt 2)) (\<lambda>hh.
         bind (py_add vy hh) (\<lambda>text_y.
           f text_x text_y text_width text_height))))))))))
     = f (PFloat (num_val vx + (num_val w - of_nat (length s) * num_val fs * (6 / 10)) / 2))
         (PFloat (num_val vy + (num_val h - num_val fs * (125 / 100)) / 2))
         (PFloat (of_nat (length s) * num_val fs * (6 / 10)))
         (PFloat (num_val fs * (125 / 100)))"
proof -
  from py_mul_int [OF assms(1), of "int (length s)"] obtain lf where
    lf: "py_mul (PInt (int (length s))) fs = Inr lf" "is_number lf"
      "num_val lf = of_nat (length s) * num_val fs"
    by auto
  show ?thesis
    by (simp add: bind_def lf py_mul_float assms py_sub_float py_truediv_2 py_add_float)
qed


lemma create_text_element_for_label_num:
  assumes "is_number (dict_get raw ''fontSize'' (PInt 20))"
    "is_number (el_x c)" "is_number (el_y c)" "is_number (el_width c)" "is_number (el_height c)"
  shows "create_text_element_for_label rnd n c (PStr s) raw =
     Inr (\<lparr>el_id = PStr (fst (generate_id rnd n 8)), el_type = PStr ''text'',
           el_x = PFloat (num_val (el_x c)
                    + (num_val (el_width c)
                       - of_nat (length s) * num_val (dict_get raw ''fontSize'' (PInt 20)) * (6 / 10))
                      / 2),
           el_y = PFloat (num_val (el_y c)
                    + (num_val (el_height c)
                       - num_val (dict_get raw ''fontSize'' (PInt 20)) * (125 / 100)) / 2),
           el_width = PFloat (of_nat (length s) * num_val (dict_get raw ''fontSize'' (PInt 20))
                              * (6 / 10)),
           el_height = PFloat (num_val (dict_get raw ''fontSize'' (PInt 20)) * (125 / 100)),
           angle = PInt 0,
           strokeColor = strokeColor c,
           backgroundColor = PStr ''transparent'',
           fillStyle = PStr ''solid'', strokeWidth = PInt 2, strokeStyle = PStr ''solid'',
           roughness = PInt 1, opacity = PInt 100, groupIds = PList [],
           frameId = PNone, roundness = PNone, seed = PInt 1, version = PInt 1,
           versionNonce = PInt 1, isDeleted = PBool False, boundElements = PList [],
           updated = PInt 1, link = PNone, locked = PBool False,
           extra_fields =
             [(''text'', PStr s), (''fontSize'', dict_get raw ''fontSize'' (PInt 20)),
              (''fontFamily'', dict_get raw ''fontFamily'' (PInt 1)),
              (''textAlign'', PStr ''center''), (''verticalAlign'', PStr ''middle''),
              (''baseline'', PInt 18), (''containerId'', el_id c),
              (''originalText'', PStr s), (''autoResize'', PBool True),
              (''lineHeight'', PFloat (125 / 100))]\<rparr>, n + 8)"
  unfolding create_text_element_for_label_def Let_def label_box [OF assms]
  by (simp add: generate_id_def)




section \<open>Label expansion\<close>

lemma extract_label_truthy:
  assumes "sanitize_text_any (extract_label_text repr_rest label) = Inr (PStr s)" and "s \<noteq> []"
  shows "truthy label"
  using assms
  by (cases label)
     (auto simp: sanitize_text_any_def extract_label_text_def sanitize_text_def dict_get_def
       split: if_splits)

lemma process_element_num:
  assumes "from_dict raw = Inr c" and "dict_has raw ''label''"
    and "sanitize_text_any (extract_label_text repr_rest (dict_get raw ''label'' PNone))
         = Inr (PStr s)"
    and "s \<noteq> []"
    and "create_text_element_for_label rnd n c (PStr s) raw = Inr (t, n')"
  shows "process_element repr_rest rnd n raw =
     Inr ([c\<lparr>boundElements :=
              PList [PDict [(''type'', PStr ''text''), (''id'', el_id t)]]\<rparr>, t], n')"
proof -
  have "truthy (dict_get raw ''label'' PNone)"
    using assms(3,4) by (rule extract_label_truthy)
  then show ?thesis
    by (simp add: process_element_def bind_def assms)
qed












section \<open>The text index\<close>

lemma text_content_of_eq: "text_content_of element = get_text_content element"
  by (simp add: text_content_of_def get_text_content_def)



lemma py_strip_Nil [simp]: "py_strip [] = []"
  by (simp add: py_strip_def)






section \<open>Labels of other types\<close>

lemma sanitize_text_any_PStr: "sanitize_text_any (PStr s) = Inr (PStr (sanitize_text s))"
  by (simp add: sanitize_text_any_def sanitize_text_def)

text \<open>The tool handler's inline expansion has no conversion: a truthy label that is
  neither a mapping nor a string has no \<^verbatim>\<open>replace\<close>.\<close>

lemma label_text_of_number: "label_text_of (PInt 5) = Inl AttributeError"
  by (simp add: label_text_of_def)

text \<open>
  C8 (amended). A label that is absent or falsy (null, false, 0, an empty string, list or
  mapping) produces no text element: \<^verbatim>\<open>process_element\<close> returns the container alone
  and unchanged. A mapping label gives its \<open>text\<close> field and a string label itself. Any
  other truthy label (a number, true, a non-empty list) is not skipped: the builder
  converts it with \<^verbatim>\<open>str\<close> and expands the resulting text like a string label. It is
  the text index that skips such a label: it yields no content for it.
\<close>

theorem label_kinds:
  "(from_dict raw = Inr c
      \<and> \<not> (dict_has raw ''label'' \<and> truthy (dict_get raw ''label'' PNone)) \<longrightarrow>
      process_element repr_rest rnd n raw = Inr ([c], n))
   \<and> extract_label_text repr_rest (PDict d) = dict_get d ''text'' (PStr [])
   \<and> extract_label_text repr_rest (PStr s) = PStr s
   \<and> (truthy label \<and> (\<forall>l. label \<noteq> PDict l) \<longrightarrow>
        extract_label_text repr_rest label = PStr (py_str repr_rest label)
        \<and> sanitize_text_any (extract_label_text repr_rest label)
            = Inr (PStr (sanitize_text (py_str repr_rest label))))
   \<and> ((\<forall>l. label \<noteq> PDict l) \<and> (\<forall>l. label \<noteq> PStr l)
        \<and> map_of raw ''label'' = Some label
        \<and> \<not> (dict_has raw ''text'' \<and> truthy (dict_get raw ''text'' PNone)) \<longrightarrow>
        get_text_content raw = PNone \<and> text_content_of raw = PNone)"
proof -
  have 1: "process_element repr_rest rnd n raw = Inr ([c], n)"
    if "from_dict raw = Inr c
      \<and> \<not> (dict_has raw ''label'' \<and> truthy (dict_get raw ''label'' PNone))"
    using that by (auto simp: process_element_def bind_def)
  have 2: "extract_label_text repr_rest (PDict d) = dict_get d ''text'' (PStr [])"
    "extract_label_text repr_rest (PStr s) = PStr s"
    by (simp_all add: extract_label_text_def)
  have 3: "extract_label_text repr_rest label = PStr (py_str repr_rest label)"
    if "truthy label \<and> (\<forall>l. label \<noteq> PDict l)"
    using that by (cases label) (simp_all add: extract_label_text_def)
  have 4: "get_text_content raw = PNone \<and> text_content_of raw = PNone"
    if "(\<forall>l. label \<noteq> PDict l) \<and> (\<forall>l. label \<noteq> PStr l)
        \<and> map_of raw ''label'' = Some label
        \<and> \<not> (dict_has raw ''text'' \<and> truthy (dict_get raw ''text'' PNone))"
    using that
    by (cases label) (auto simp: get_text_content_def text_content_of_eq dict_get_def dict_has_def)
  show ?thesis
    using 1 2 3 4 by (simp add: sanitize_text_any_PStr)
qed

text \<open>C8 as stated fails: a label that is a number is expanded. The rectangle
  \<^verbatim>\<open>r1\<close> with the label 5 comes back with a text element.\<close>

theorem number_label_expanded:
  "map_sum id (map el_type \<circ> fst)
     (process_element no_repr rnd0 0
        [(''id'', PStr ''r1''), (''type'', PStr ''rectangle''), (''x'', PInt 0),
         (''y'', PInt 0), (''width'', PInt 100), (''height'', PInt 50), (''label'', PInt 5)])
   = Inr [PStr ''rectangle'', PStr ''text'']
   \<and> map_sum id (map extra_fields \<circ> fst)
     (process_element no_repr rnd0 0
        [(''id'', PStr ''r1''), (''type'', PStr ''rectangle''), (''x'', PInt 0),
         (''y'', PInt 0), (''width'', PInt 100), (''height'', PInt 50), (''label'', PInt 5)])
   = Inr [[(''label'', PInt 5)],
          [(''text'', PStr ''5''), (''fontSize'', PInt 20), (''fontFamily'', PInt 1),
           (''textAlign'', PStr ''center''), (''verticalAlign'', PStr ''middle''),
           (''baseline'', PInt 18), (''containerId'', PStr ''r1''),
           (''originalText'', PStr ''5''), (''autoResize'', PBool True),
           (''lineHeight'', PFloat (125 / 100))]]"
proof -
  let ?r = "[(''id'', PStr ''r1''), (''type'', PStr ''rectangle''), (''x'', PInt 0),
         (''y'', PInt 0), (''width'', PInt 100), (''height'', PInt 50), (''label'', PInt 5)]"
  have cp: "core_present ?r" by (simp add: core_present_def dict_has_def)
  from from_dict_present [OF cp] obtain c where
    c: "from_dict ?r = Inr c" and g: "el_id c = PStr ''r1''" "el_x c = PInt 0" "el_y c = PInt 0"
      "el_width c = PInt 100" "el_height c = PInt 50" "el_type c = PStr ''rectangle''"
      "extra_fields c = [(''label'', PInt 5)]"
    by (simp add: dict_get_def known_fields_def)
  have l: "dict_has ?r ''label''" by (simp add: dict_has_def)
  have s: "sanitize_text_any (extract_label_text no_repr (dict_get ?r ''label'' PNone))
      = Inr (PStr ''5'')"
    by (simp add: dict_get_def extract_label_text_def sanitize_text_any_def sanitize_text_def
        str_nat.simps str_replace.simps)
  have n: "is_number (dict_get ?r ''fontSize'' (PInt 20))" "is_number (el_x c)"
    "is_number (el_y c)" "is_number (el_width c)" "is_number (el_height c)"
    by (simp_all add: g dict_get_def is_number_def)
  note cr = create_text_element_for_label_num [OF n, of rnd0 0 "''5''"]
  from process_element_num [OF c l s _ cr] show ?thesis
    by (simp add: g dict_get_def)
qed

theorem label_kinds_witness:
  "(\<exists>c. from_dict [(''id'', PStr ''r1''), (''type'', PStr ''rectangle''), (''x'', PInt 0),
         (''y'', PInt 0), (''width'', PInt 100), (''height'', PInt 50), (''label'', PInt 0)]
        = Inr c
      \<and> process_element no_repr rnd0 0
           [(''id'', PStr ''r1''), (''type'', PStr ''rectangle''), (''x'', PInt 0),
            (''y'', PInt 0), (''width'', PInt 100), (''height'', PInt 50), (''label'', PInt 0)]
         = Inr ([c], 0))
   \<and> extract_label_text no_repr (PBool True) = PStr ''True''
   \<and> get_text_content [(''id'', PStr ''r1''), (''label'', PInt 5)] = PNone"
proof -
  let ?r = "[(''id'', PStr ''r1''), (''type'', PStr ''rectangle''), (''x'', PInt 0),
         (''y'', PInt 0), (''width'', PInt 100), (''height'', PInt 50), (''label'', PInt 0)]"
  have cp: "core_present ?r" by (simp add: core_present_def dict_has_def)
  from from_dict_present [OF cp] obtain c where c: "from_dict ?r = Inr c"
    by blast
  have f: "\<not> (dict_has ?r ''label'' \<and> truthy (dict_get ?r ''label'' PNone))"
    by (simp add: dict_get_def)
  have 1: "process_element no_repr rnd0 0 ?r = Inr ([c], 0)"
    using label_kinds [where raw = ?r and c = c and repr_rest = no_repr and rnd = rnd0
        and n = 0, THEN conjunct1] c f
    by blast
  have 2: "extract_label_text no_repr (PBool True) = PStr ''True''"
    using label_kinds [where label = "PBool True" and repr_rest = no_repr] by simp
  have 3: "get_text_content [(''id'', PStr ''r1''), (''label'', PInt 5)] = PNone"
    using label_kinds [where label = "PInt 5" and raw = "[(''id'', PStr ''r1''), (''label'', PInt 5)]"]
    by (simp add: dict_has_def)
  from c 1 2 3 show ?thesis by blast
qed

end
